theory Spec2Isabelle
  imports Main "HOL-Library.Word" "HOL-Library.Stream" "HOL-Library.Signed_Division"
begin

unbundle bit_operations_syntax

section \<open>The connection listener of listener.c\<close>

text \<open>
  The listener turns a listening socket into calls of a user callback. Everything it does
  is a call to a collaborator that is not part of listener.c: the socket layer
  (socket, bind, listen, accept, close), the reactor (event_add, event_del), the
  allocator, the log and the user callback. The model keeps the order of these calls in
  a trace and takes what each call returns from the world: for every collaborator the
  world holds the stream of the values it is going to return, in call order. A run of the
  C code against any deterministic environment is a run of the model in the world that
  holds the answers of that run, so a statement for every world is a statement for every
  environment. The user callback is one of the collaborators: what it does to the sockets
  shows in the answers that follow it.

  What the listener does is therefore read off the trace: that it closes a descriptor,
  removes a registration, frees a block or makes a descriptor non-blocking means that it
  makes that call, at that place in the order of its calls. What the collaborator
  answers is the world's, and the code below decides on an answer exactly where the
  source tests it. Whether a handle is in the enabled state is a state of the reactor:
  it is read off the calls together with the reactor's answers (the function reactor
  below).

  The integers of the C code (descriptors, the backlog, sizes, error codes) are
  mathematical integers here: the code compares them and passes them on, and its only
  arithmetic is on two small sizes. The flags are a 32-bit word, tested with AND as the
  source does.
\<close>

subsection \<open>Data\<close>

text \<open>struct sockaddr and struct sockaddr_storage: the family and the address bytes.\<close>

record sockaddr =
  sa_family :: int
  sa_data :: "nat list"

text \<open>
  The handler the reactor calls for a registration and the completion handler of an
  overlapped operation: the two static functions of listener.c that are installed so.
\<close>

datatype handler = Listener_read_cb | Accepted_socket_cb

text \<open>
  struct event (event_struct.h is not part of listener.c): the fields event_assign is
  given. Pointers are integers, 0 is NULL.
\<close>

record event =
  ev_base :: int
  ev_fd :: int
  ev_events :: "16 word"
  ev_callback :: handler
  ev_arg :: int

text \<open>
  struct evconnlistener. Its ops pointer selects one of the two tables
  evconnlistener_event_ops and evconnlistener_iocp_ops; the model keeps it as the
  constructor of the type handle below. struct evconnlistener_event and
  struct evconnlistener_iocp start with the base struct and extend it.
\<close>

record evconnlistener =
  lev_cb :: int
  lev_user_data :: int
  lev_flags :: "32 word"

record evconnlistener_event = evconnlistener +
  listener :: event

text \<open>struct accepting_socket: one slot of the completion backend.\<close>

record accepting_socket =
  as_overlapped :: handler
  as_s :: int
  as_lev :: int
  as_buflen :: int
  as_addrbuf :: "nat list"

text \<open>
  struct evconnlistener_iocp. accepting is the address of the array of slot pointers
  together with the array: an element is NULL (None) or a slot's address and the slot.
\<close>

record evconnlistener_iocp = evconnlistener +
  iocp_fd :: int
  iocp_port :: int
  n_accepting :: int
  accepting :: "int \<times> (int \<times> accepting_socket) option list"

datatype handle = Event_handle evconnlistener_event | Iocp_handle evconnlistener_iocp

text \<open>
  The constants, sizes and macros of headers that are not part of listener.c
  (event2/listener.h, event2/event.h, util-internal.h, the socket headers). Their values
  are parameters of every function that uses them; no theorem depends on a value.
  WIN32 says whether the code was compiled with WIN32 defined.
  GetAcceptExSockaddrs is the extension function of that name, None when the extension
  table holds a null pointer.
\<close>

record platform =
  WIN32 :: bool
  LEV_OPT_LEAVE_SOCKETS_BLOCKING :: "32 word"
  LEV_OPT_CLOSE_ON_FREE :: "32 word"
  LEV_OPT_CLOSE_ON_EXEC :: "32 word"
  LEV_OPT_REUSEABLE :: "32 word"
  EV_READ :: "16 word"
  EV_PERSIST :: "16 word"
  AF_UNSPEC :: int
  AF_INET :: int
  AF_INET6 :: int
  INVALID_SOCKET :: int
  ERROR_IO_PENDING :: int
  EVUTIL_ERR_ACCEPT_RETRIABLE :: "int \<Rightarrow> bool"
  sizeof_evconnlistener_event :: int
  sizeof_accepting_socket :: int
  sizeof_pointer :: int
  sizeof_sockaddr_in :: int
  sizeof_sockaddr_in6 :: int
  GetAcceptExSockaddrs ::
    "(nat list \<Rightarrow> int \<Rightarrow> int \<Rightarrow> int \<Rightarrow> (sockaddr \<times> int) \<times> (sockaddr \<times> int)) option"

subsection \<open>The world: the trace of calls and the answers of the collaborators\<close>

datatype sockopt = SO_KEEPALIVE | SO_UPDATE_ACCEPT_CONTEXT

text \<open>
  One constructor for each call the listener makes to a collaborator, with the arguments
  of the call. Socket is socket(family, SOCK_STREAM, 0), Fcntl_setfd_cloexec is
  fcntl(fd, F_SETFD, FD_CLOEXEC), Closesocket is EVUTIL_CLOSESOCKET and closesocket,
  Port_associate is event_iocp_port_associate(port, s, key), Accept_ex is AcceptEx with
  the listening socket, the new socket and the length of each half of the buffer.
  Callback is the call of the user callback: cb, the listener, the accepted descriptor,
  the peer address, its length, user_data.
\<close>

datatype action =
    Listen int int
  | Socket int
  | Make_socket_nonblocking int
  | Fcntl_setfd_cloexec int
  | Setsockopt int sockopt
  | Make_listen_socket_reuseable int
  | Bind int sockaddr int
  | Closesocket int
  | Accept int
  | Getsockname int
  | Mm_calloc int int
  | Mm_free int
  | Event_add event
  | Event_del event
  | Port_associate int int int
  | Accept_ex int int int
  | Callback int int int sockaddr int int
  | Event_sock_warn int string
  | Event_warn string
  | Event_warnx string

text \<open>The collaborators that answer with one integer.\<close>

datatype call =
    C_listen | C_socket | C_make_socket_nonblocking | C_fcntl | C_bind | C_mm_calloc
  | C_event_add | C_event_del | C_port_associate

text \<open>
  What accept returns: the new descriptor (negative on failure), the peer address and
  its length, and the error code it leaves for evutil_socket_geterror when it fails.
\<close>

record accept_reply =
  a_ret :: int
  a_addr :: sockaddr
  a_len :: int
  a_errno :: int

text \<open>What getsockname returns: its status (0 on success) and the local address.\<close>

record getsockname_reply =
  g_ret :: int
  g_addr :: sockaddr

text \<open>
  What AcceptEx returns: whether it completed at once, the bytes it left in the address
  buffer, and the error code WSAGetLastError reports after it.
\<close>

record acceptex_reply =
  x_ok :: bool
  x_buf :: "nat list"
  x_error :: int

record world =
  trace :: "action list"
  rets :: "call \<Rightarrow> int stream"
  accepts :: "accept_reply stream"
  socknames :: "getsockname_reply stream"
  acceptexs :: "acceptex_reply stream"
  last_error :: int

definition emit :: "action \<Rightarrow> world \<Rightarrow> world" where
  "emit a w = w\<lparr>trace := trace w @ [a]\<rparr>"

definition answer :: "call \<Rightarrow> world \<Rightarrow> int \<times> world" where
  "answer c w = (shd (rets w c), w\<lparr>rets := (rets w)(c := stl (rets w c))\<rparr>)"

subsection \<open>The collaborators\<close>

text \<open>
  Each call is added to the trace; a call whose result the source reads somewhere takes
  its result from the world. bind is named bind_socket here.
\<close>

definition listen :: "int \<Rightarrow> int \<Rightarrow> world \<Rightarrow> int \<times> world" where
  "listen fd backlog w = answer C_listen (emit (Listen fd backlog) w)"

definition socket :: "int \<Rightarrow> world \<Rightarrow> int \<times> world" where
  "socket family w = answer C_socket (emit (Socket family) w)"

definition evutil_make_socket_nonblocking :: "int \<Rightarrow> world \<Rightarrow> int \<times> world" where
  "evutil_make_socket_nonblocking fd w =
     answer C_make_socket_nonblocking (emit (Make_socket_nonblocking fd) w)"

definition fcntl_setfd_cloexec :: "int \<Rightarrow> world \<Rightarrow> int \<times> world" where
  "fcntl_setfd_cloexec fd w = answer C_fcntl (emit (Fcntl_setfd_cloexec fd) w)"

definition setsockopt :: "int \<Rightarrow> sockopt \<Rightarrow> world \<Rightarrow> world" where
  "setsockopt fd opt w = emit (Setsockopt fd opt) w"

definition evutil_make_listen_socket_reuseable :: "int \<Rightarrow> world \<Rightarrow> world" where
  "evutil_make_listen_socket_reuseable fd w = emit (Make_listen_socket_reuseable fd) w"

definition bind_socket :: "int \<Rightarrow> sockaddr \<Rightarrow> int \<Rightarrow> world \<Rightarrow> int \<times> world" where
  "bind_socket fd sa socklen w = answer C_bind (emit (Bind fd sa socklen) w)"

definition EVUTIL_CLOSESOCKET :: "int \<Rightarrow> world \<Rightarrow> world" where
  "EVUTIL_CLOSESOCKET fd w = emit (Closesocket fd) w"

definition mm_calloc :: "int \<Rightarrow> int \<Rightarrow> world \<Rightarrow> int \<times> world" where
  "mm_calloc n sz w = answer C_mm_calloc (emit (Mm_calloc n sz) w)"

definition mm_free :: "int \<Rightarrow> world \<Rightarrow> world" where
  "mm_free p w = emit (Mm_free p) w"

definition event_add :: "event \<Rightarrow> world \<Rightarrow> int \<times> world" where
  "event_add ev w = answer C_event_add (emit (Event_add ev) w)"

definition event_del :: "event \<Rightarrow> world \<Rightarrow> int \<times> world" where
  "event_del ev w = answer C_event_del (emit (Event_del ev) w)"

text \<open>
  accept takes the next answer of the kernel; a failing accept leaves its error code
  behind.
\<close>

definition accept :: "int \<Rightarrow> world \<Rightarrow> accept_reply \<times> world" where
  "accept fd w =
     (let r = shd (accepts w);
          w1 = (emit (Accept fd) w)\<lparr>accepts := stl (accepts w)\<rparr>
      in (r, if a_ret r < 0 then w1\<lparr>last_error := a_errno r\<rparr> else w1))"

text \<open>
  Modelled from the spec: evutil_socket_geterror is a macro of util.h and event_sock_warn,
  event_warn and event_warnx are functions of log.c, none of them part of listener.c.
  The spec has the readiness backend classify the error of the accept that failed, and
  log and stop where it is not retriable: evutil_socket_geterror reads the error code
  the failing call left, and the three warning functions log their message and return.
\<close>

definition evutil_socket_geterror :: "int \<Rightarrow> world \<Rightarrow> int" where
  "evutil_socket_geterror fd w = last_error w"

definition event_sock_warn :: "int \<Rightarrow> string \<Rightarrow> world \<Rightarrow> world" where
  "event_sock_warn fd msg w = emit (Event_sock_warn fd msg) w"

definition event_warn :: "string \<Rightarrow> world \<Rightarrow> world" where
  "event_warn msg w = emit (Event_warn msg) w"

definition event_warnx :: "string \<Rightarrow> world \<Rightarrow> world" where
  "event_warnx msg w = emit (Event_warnx msg) w"

text \<open>
  Modelled from the spec: event_assign and event_get_fd are functions of event.c, which
  is not part of listener.c. The spec's reactor interface is
  register(descriptor, interest, persistent, handler) and get_descriptor(registration):
  event_assign fills the registration with what it is given and calls nothing,
  event_get_fd reads the descriptor back.
\<close>

definition event_assign :: "int \<Rightarrow> int \<Rightarrow> 16 word \<Rightarrow> handler \<Rightarrow> int \<Rightarrow> event" where
  "event_assign base fd events callback arg =
     \<lparr>ev_base = base, ev_fd = fd, ev_events = events, ev_callback = callback, ev_arg = arg\<rparr>"

definition event_get_fd :: "event \<Rightarrow> int" where
  "event_get_fd ev = ev_fd ev"

text \<open>
  The call lev->cb(lev, new_fd, sa, socklen, lev->user_data) of the user callback. The
  callback is taken not to call back into the listener it is given.
\<close>

definition call_cb :: "int \<Rightarrow> int \<Rightarrow> int \<Rightarrow> sockaddr \<Rightarrow> int \<Rightarrow> int \<Rightarrow> world \<Rightarrow> world" where
  "call_cb cb lev new_fd sa socklen user_data w =
     emit (Callback cb lev new_fd sa socklen user_data) w"

subsection \<open>The readiness backend\<close>

text \<open>
  A pointer to a struct is the pair of its address and the struct. The three functions
  of evconnlistener_event_ops that the constructor and the destructor reach:
\<close>

definition event_listener_enable :: "int \<times> evconnlistener_event \<Rightarrow> world \<Rightarrow> int \<times> world" where
  "event_listener_enable lev w = event_add (listener (snd lev)) w"

definition event_listener_disable :: "int \<times> evconnlistener_event \<Rightarrow> world \<Rightarrow> int \<times> world" where
  "event_listener_disable lev w = event_del (listener (snd lev)) w"

definition event_listener_destroy ::
  "platform \<Rightarrow> int \<times> evconnlistener_event \<Rightarrow> world \<Rightarrow> world" where
  "event_listener_destroy P lev w =
     (let w1 = snd (event_del (listener (snd lev)) w)
      in if lev_flags (snd lev) AND LEV_OPT_CLOSE_ON_FREE P \<noteq> 0
         then EVUTIL_CLOSESOCKET (event_get_fd (listener (snd lev))) w1
         else w1)"

definition event_listener_getfd :: "int \<times> evconnlistener_event \<Rightarrow> int" where
  "event_listener_getfd lev = event_get_fd (listener (snd lev))"

text \<open>The functions of evconnlistener_iocp_ops; three of them are empty in the source.\<close>

definition iocp_listener_enable :: "int \<times> evconnlistener_iocp \<Rightarrow> world \<Rightarrow> int \<times> world" where
  "iocp_listener_enable lev w = (0, w)"

definition iocp_listener_disable :: "int \<times> evconnlistener_iocp \<Rightarrow> world \<Rightarrow> int \<times> world" where
  "iocp_listener_disable lev w = (0, w)"

definition iocp_listener_destroy :: "int \<times> evconnlistener_iocp \<Rightarrow> world \<Rightarrow> world" where
  "iocp_listener_destroy lev w = w"

definition iocp_listener_getfd :: "int \<times> evconnlistener_iocp \<Rightarrow> int" where
  "iocp_listener_getfd lev = iocp_fd (snd lev)"

text \<open>The public functions dispatch through lev->ops.\<close>

fun evconnlistener_enable :: "int \<times> handle \<Rightarrow> world \<Rightarrow> int \<times> world" where
  "evconnlistener_enable (p, Event_handle lev_e) w = event_listener_enable (p, lev_e) w"
| "evconnlistener_enable (p, Iocp_handle lev_i) w = iocp_listener_enable (p, lev_i) w"

fun evconnlistener_disable :: "int \<times> handle \<Rightarrow> world \<Rightarrow> int \<times> world" where
  "evconnlistener_disable (p, Event_handle lev_e) w = event_listener_disable (p, lev_e) w"
| "evconnlistener_disable (p, Iocp_handle lev_i) w = iocp_listener_disable (p, lev_i) w"

fun evconnlistener_get_fd :: "int \<times> handle \<Rightarrow> int" where
  "evconnlistener_get_fd (p, Event_handle lev_e) = event_listener_getfd (p, lev_e)"
| "evconnlistener_get_fd (p, Iocp_handle lev_i) = iocp_listener_getfd (p, lev_i)"

fun evconnlistener_free :: "platform \<Rightarrow> int \<times> handle \<Rightarrow> world \<Rightarrow> world" where
  "evconnlistener_free P (p, Event_handle lev_e) w =
     mm_free p (event_listener_destroy P (p, lev_e) w)"
| "evconnlistener_free P (p, Iocp_handle lev_i) w =
     mm_free p (iocp_listener_destroy (p, lev_i) w)"

text \<open>
  evconnlistener_new: NULL is None. The two listen calls of the source are the two
  branches of the first let; backlog 0 calls nothing.
\<close>

definition evconnlistener_new ::
  "platform \<Rightarrow> int \<Rightarrow> int \<Rightarrow> int \<Rightarrow> 32 word \<Rightarrow> int \<Rightarrow> int \<Rightarrow> world
     \<Rightarrow> (int \<times> handle) option \<times> world" where
  "evconnlistener_new P base cb ptr flags backlog fd w =
     (let (rc, w1) = (if 0 < backlog then listen fd backlog w
                      else if backlog < 0 then listen fd 128 w
                      else (0, w))
      in if rc < 0 then (None, w1)
         else
           let (lev, w2) = mm_calloc 1 (sizeof_evconnlistener_event P) w1
           in if lev = 0 then (None, w2)
              else
                let lev_e = \<lparr>lev_cb = cb, lev_user_data = ptr, lev_flags = flags,
                             listener = event_assign base fd (EV_READ P OR EV_PERSIST P)
                                          Listener_read_cb lev\<rparr>;
                    w3 = snd (evconnlistener_enable (lev, Event_handle lev_e) w2)
                in (Some (lev, Event_handle lev_e), w3))"

text \<open>
  evconnlistener_new_bind. sa is None for a null pointer. The close-on-exec block is
  compiled only without WIN32.
\<close>

definition evconnlistener_new_bind ::
  "platform \<Rightarrow> int \<Rightarrow> int \<Rightarrow> int \<Rightarrow> 32 word \<Rightarrow> int \<Rightarrow> sockaddr option \<Rightarrow> int \<Rightarrow> world
     \<Rightarrow> (int \<times> handle) option \<times> world" where
  "evconnlistener_new_bind P base cb ptr flags backlog sa socklen w =
     (let family = (case sa of Some a \<Rightarrow> sa_family a | None \<Rightarrow> AF_UNSPEC P)
      in if backlog = 0 then (None, w)
         else
           let (fd, w1) = socket family w
           in if fd = - 1 then (None, w1)
              else
                let (rc, w2) = evutil_make_socket_nonblocking fd w1
                in if rc < 0 then (None, w2)
                   else
                     let (cloexec, w3) =
                           (if \<not> WIN32 P \<and> flags AND LEV_OPT_CLOSE_ON_EXEC P \<noteq> 0
                            then fcntl_setfd_cloexec fd w2 else (0, w2))
                     in if cloexec = - 1 then (None, EVUTIL_CLOSESOCKET fd w3)
                        else
                          let w4 = setsockopt fd SO_KEEPALIVE w3;
                              w5 = (if flags AND LEV_OPT_REUSEABLE P \<noteq> 0
                                    then evutil_make_listen_socket_reuseable fd w4 else w4)
                          in case sa of
                               Some a \<Rightarrow>
                                 let (rc, w6) = bind_socket fd a socklen w5
                                 in if rc < 0 then (None, EVUTIL_CLOSESOCKET fd w6)
                                    else evconnlistener_new P base cb ptr flags backlog fd w6
                             | None \<Rightarrow> evconnlistener_new P base cb ptr flags backlog fd w5)"

text \<open>
  listener_read_cb: the while (1) loop, then the classification of the error. The loop
  has no bound of its own (it runs for as long as accept succeeds), so it is a partial
  function: None is a run that never leaves the loop. p is the listener the reactor
  hands back, its address and the struct.
\<close>

partial_function (option) listener_read_cb_loop ::
  "platform \<Rightarrow> int \<Rightarrow> int \<times> evconnlistener_event \<Rightarrow> world \<Rightarrow> world option" where
  "listener_read_cb_loop P fd p w =
     (let r = fst (accept fd w); w1 = snd (accept fd w)
      in if a_ret r < 0 then Some w1
         else
           let w2 = (if lev_flags (snd p) AND LEV_OPT_LEAVE_SOCKETS_BLOCKING P = 0
                     then snd (evutil_make_socket_nonblocking (a_ret r) w1) else w1);
               w3 = call_cb (lev_cb (snd p)) (fst p) (a_ret r) (a_addr r) (a_len r)
                      (lev_user_data (snd p)) w2
           in listener_read_cb_loop P fd p w3)"

definition listener_read_cb ::
  "platform \<Rightarrow> int \<Rightarrow> 16 word \<Rightarrow> int \<times> evconnlistener_event \<Rightarrow> world \<Rightarrow> world option" where
  "listener_read_cb P fd what p w =
     (case listener_read_cb_loop P fd p w of
        None \<Rightarrow> None
      | Some w1 \<Rightarrow>
          let err = evutil_socket_geterror fd w1
          in if EVUTIL_ERR_ACCEPT_RETRIABLE P err then Some w1
             else Some (event_sock_warn fd ''Error from accept() call'' w1))"

subsection \<open>The completion backend\<close>

definition event_iocp_port_associate :: "int \<Rightarrow> int \<Rightarrow> int \<Rightarrow> world \<Rightarrow> int \<times> world" where
  "event_iocp_port_associate port s key w =
     answer C_port_associate (emit (Port_associate port s key) w)"

text \<open>
  ext->AcceptEx(listening socket, s, addrbuf, 0, len, len, ...): the next answer of the
  kernel; when it does not complete at once it leaves its error code behind.
\<close>

definition AcceptEx :: "int \<Rightarrow> int \<Rightarrow> int \<Rightarrow> world \<Rightarrow> acceptex_reply \<times> world" where
  "AcceptEx lfd s len w =
     (let r = shd (acceptexs w);
          w1 = (emit (Accept_ex lfd s len) w)\<lparr>acceptexs := stl (acceptexs w)\<rparr>
      in (r, if x_ok r then w1 else w1\<lparr>last_error := x_error r\<rparr>))"

definition WSAGetLastError :: "world \<Rightarrow> int" where
  "WSAGetLastError w = last_error w"

text \<open>
  A call of the completion backend returns a value and a world, or the process aborts
  (EVUTIL_ASSERT fails) in a world.
\<close>

datatype 'a outcome = Aborted world | Returned 'a world

text \<open>
  new_accepting_socket. mm_calloc returns zeroed memory, so the buffer starts as buflen
  zero bytes. event_overlapped_init (iocp-internal.h, not part of listener.c) is taken to
  store the completion handler it is given in the overlapped struct.
\<close>

definition new_accepting_socket ::
  "platform \<Rightarrow> int \<times> evconnlistener_iocp \<Rightarrow> int \<Rightarrow> world
     \<Rightarrow> (int \<times> accepting_socket) option \<times> world" where
  "new_accepting_socket P lev family w =
     (case (if family = AF_INET P then Some (sizeof_sockaddr_in P)
            else if family = AF_INET6 P then Some (sizeof_sockaddr_in6 P)
            else None) of
        None \<Rightarrow> (None, w)
      | Some addrlen \<Rightarrow>
          let buflen = (addrlen + 16) * 2;
              (res, w1) = mm_calloc 1 (sizeof_accepting_socket P - 1 + buflen) w
          in if res = 0 then (None, w1)
             else (Some (res, \<lparr>as_overlapped = Accepted_socket_cb, as_s = INVALID_SOCKET P,
                               as_lev = fst lev, as_buflen = buflen,
                               as_addrbuf = replicate (nat buflen) 0\<rparr>), w1))"

text \<open>
  start_accepting and accepted_socket_cb call each other: start_accepting calls
  accepted_socket_cb when AcceptEx completes at once, and accepted_socket_cb ends with
  start_accepting. Nothing bounds the chain, so the pair is one partial function with
  the name of the C function entered as an argument; None is a chain that never ends.
  lev is the listener that asock->lev points to. The value returned is the int of
  start_accepting (0 for the void accepted_socket_cb) and the slot as the call left it.
\<close>

datatype iocp_fn = Fn_start_accepting | Fn_accepted_socket_cb

partial_function (option) iocp_run ::
  "platform \<Rightarrow> int \<times> evconnlistener_iocp \<Rightarrow> iocp_fn \<Rightarrow> int \<times> accepting_socket \<Rightarrow> world
     \<Rightarrow> (int \<times> accepting_socket) outcome option" where
  "iocp_run P lev fn asock w =
     (case fn of
        Fn_start_accepting \<Rightarrow>
          (let s = fst (socket (AF_INET P) w); w1 = snd (socket (AF_INET P) w)
           in if s = INVALID_SOCKET P then Some (Returned (- 1, snd asock) w1)
              else
                let w2 = setsockopt s SO_UPDATE_ACCEPT_CONTEXT w1;
                    w3 = (if lev_flags (snd lev) AND LEV_OPT_LEAVE_SOCKETS_BLOCKING P = 0
                          then snd (evutil_make_socket_nonblocking s w2) else w2);
                    rc = fst (event_iocp_port_associate (iocp_port (snd lev)) s 1 w3);
                    w4 = snd (event_iocp_port_associate (iocp_port (snd lev)) s 1 w3)
                in if rc < 0 then Some (Returned (- 1, snd asock) w4)
                   else
                     let as1 = (snd asock)\<lparr>as_s := s\<rparr>;
                         x = fst (AcceptEx (iocp_fd (snd lev)) s (as_buflen as1 sdiv 2) w4);
                         w5 = snd (AcceptEx (iocp_fd (snd lev)) s (as_buflen as1 sdiv 2) w4)
                     in if x_ok x
                        then Option.bind
                               (iocp_run P lev Fn_accepted_socket_cb
                                  (fst asock, as1\<lparr>as_addrbuf := x_buf x\<rparr>) w5)
                               (\<lambda>r. case r of
                                       Aborted wa \<Rightarrow> Some (Aborted wa)
                                     | Returned v w6 \<Rightarrow> Some (Returned (0, snd v) w6))
                        else if WSAGetLastError w5 = ERROR_IO_PENDING P
                             then Some (Returned (0, as1) w5)
                             else Some (Returned (- 1, as1) w5))
      | Fn_accepted_socket_cb \<Rightarrow>
          (case GetAcceptExSockaddrs P of
             None \<Rightarrow> Some (Aborted w)
           | Some ext \<Rightarrow>
               let addrs = ext (as_addrbuf (snd asock)) 0 (as_buflen (snd asock) sdiv 2)
                             (as_buflen (snd asock) sdiv 2);
                   sa_remote = fst (snd addrs);
                   socklen_remote = snd (snd addrs);
                   as1 = (snd asock)\<lparr>as_s := INVALID_SOCKET P\<rparr>;
                   w1 = call_cb (lev_cb (snd lev)) (fst lev) (as_s as1) sa_remote
                          socklen_remote (lev_user_data (snd lev)) w
               in Option.bind (iocp_run P lev Fn_start_accepting (fst asock, as1) w1)
                    (\<lambda>r. case r of
                            Aborted wa \<Rightarrow> Some (Aborted wa)
                          | Returned v w2 \<Rightarrow> Some (Returned (0, snd v) w2))))"

definition start_accepting ::
  "platform \<Rightarrow> int \<times> evconnlistener_iocp \<Rightarrow> int \<times> accepting_socket \<Rightarrow> world
     \<Rightarrow> (int \<times> accepting_socket) outcome option" where
  "start_accepting P lev asock w = iocp_run P lev Fn_start_accepting asock w"

definition accepted_socket_cb ::
  "platform \<Rightarrow> int \<times> evconnlistener_iocp \<Rightarrow> int \<times> accepting_socket \<Rightarrow> world
     \<Rightarrow> (int \<times> accepting_socket) outcome option" where
  "accepted_socket_cb P lev asock w = iocp_run P lev Fn_accepted_socket_cb asock w"

definition getsockname :: "int \<Rightarrow> world \<Rightarrow> getsockname_reply \<times> world" where
  "getsockname fd w =
     (shd (socknames w), (emit (Getsockname fd) w)\<lparr>socknames := stl (socknames w)\<rparr>)"

text \<open>
  evconnlistener_new_async. mm_calloc returns zeroed memory, so the fields the
  constructor does not assign (the port) are 0. The last test of the source is
  if (!start_accepting(...)): it takes the failure branch when start_accepting
  returned 0.
\<close>

definition evconnlistener_new_async ::
  "platform \<Rightarrow> int \<Rightarrow> int \<Rightarrow> int \<Rightarrow> 32 word \<Rightarrow> int \<Rightarrow> int \<Rightarrow> world
     \<Rightarrow> (int \<times> handle) option outcome option" where
  "evconnlistener_new_async P base cb ptr flags backlog fd w =
     (let (rc, w1) = (if 0 < backlog then listen fd backlog w
                      else if backlog < 0 then listen fd 128 w
                      else (0, w))
      in if rc < 0 then Some (Returned None w1)
         else
           let (ss, w2) = getsockname fd w1
           in if g_ret ss \<noteq> 0
              then Some (Returned None (event_sock_warn fd ''getsockname'' w2))
              else
                let (lev, w3) = mm_calloc 1 (sizeof_evconnlistener_event P) w2
                in if lev = 0 then Some (Returned None (event_warn ''calloc'' w3))
                   else
                     let lev_i = \<lparr>lev_cb = cb, lev_user_data = ptr, lev_flags = flags,
                                  iocp_fd = fd, iocp_port = 0, n_accepting = 1,
                                  accepting = (0, [])\<rparr>;
                         (arr, w4) = mm_calloc 1 (sizeof_pointer P) w3
                     in if arr = 0
                        then Some (Returned None
                               (EVUTIL_CLOSESOCKET fd (mm_free lev (event_warn ''calloc'' w4))))
                        else
                          let (slot, w5) =
                                new_accepting_socket P (lev, lev_i\<lparr>accepting := (arr, [None])\<rparr>)
                                  (sa_family (g_addr ss)) w4
                          in case slot of
                               None \<Rightarrow>
                                 Some (Returned None
                                   (EVUTIL_CLOSESOCKET fd (mm_free lev (mm_free arr
                                      (event_warnx ''Couldn't create accepting socket'' w5)))))
                             | Some asock \<Rightarrow>
                                 Option.bind
                                   (start_accepting P
                                      (lev, lev_i\<lparr>accepting := (arr, [Some asock])\<rparr>) asock w5)
                                   (\<lambda>r. case r of
                                      Aborted wa \<Rightarrow> Some (Aborted wa)
                                    | Returned v w6 \<Rightarrow>
                                        if fst v = 0
                                        then Some (Returned None
                                               (event_warnx
                                                  ''Couldn't start accepting on socket'' w6))
                                        else Some (Returned
                                               (Some (lev, Iocp_handle
                                                  (lev_i\<lparr>accepting :=
                                                     (arr, [Some (fst asock, snd v)])\<rparr>)))
                                               w6)))"

subsection \<open>Reading a trace\<close>

text \<open>The listen calls of a trace, in order: descriptor and backlog.\<close>

fun listens :: "action list \<Rightarrow> (int \<times> int) list" where
  "listens [] = []"
| "listens (Listen fd backlog # tr) = (fd, backlog) # listens tr"
| "listens (a # tr) = listens tr"

text \<open>
  The calls of the user callback in a trace, in order: the descriptor, the address and
  the address length it was given.
\<close>

fun callbacks :: "action list \<Rightarrow> (int \<times> sockaddr \<times> int) list" where
  "callbacks [] = []"
| "callbacks (Callback cb lev new_fd sa socklen user_data # tr) =
     (new_fd, sa, socklen) # callbacks tr"
| "callbacks (a # tr) = callbacks tr"

text \<open>The calls of a trace that take something down: event_del, close, free.\<close>

fun teardowns :: "action list \<Rightarrow> action list" where
  "teardowns [] = []"
| "teardowns (Event_del ev # tr) = Event_del ev # teardowns tr"
| "teardowns (Closesocket fd # tr) = Closesocket fd # teardowns tr"
| "teardowns (Mm_free p # tr) = Mm_free p # teardowns tr"
| "teardowns (a # tr) = teardowns tr"

text \<open>
  Modelled from the spec: the reactor (event_add and event_del of event.c) is not part of
  listener.c. The spec says that enable arms the underlying notification source, that
  disable removes it, and that each returns success or failure from the underlying
  reactor operation. reactor adds dels S tr is the set of registrations the reactor
  holds armed after the calls of the trace tr, when it held S before them, event_add
  answers adds in call order and event_del answers dels: an event_add that answers 0
  arms its registration, an event_del that answers 0 removes it, and a call that fails
  leaves the set as it was. A handle is in the enabled state when its registration is in
  that set.
\<close>

fun reactor :: "int stream \<Rightarrow> int stream \<Rightarrow> event set \<Rightarrow> action list \<Rightarrow> event set" where
  "reactor adds dels S [] = S"
| "reactor adds dels S (Event_add ev # tr) =
     reactor (stl adds) dels (if shd adds = 0 then insert ev S else S) tr"
| "reactor adds dels S (Event_del ev # tr) =
     reactor adds (stl dels) (if shd dels = 0 then S - {ev} else S) tr"
| "reactor adds dels S (a # tr) = reactor adds dels S tr"

text \<open>
  What the drain routine is expected to call for one accepted connection r: accept,
  then evutil_make_socket_nonblocking on the new descriptor unless
  LEV_OPT_LEAVE_SOCKETS_BLOCKING is set, then the user callback.
\<close>

definition delivery ::
  "platform \<Rightarrow> int \<Rightarrow> int \<times> evconnlistener_event \<Rightarrow> accept_reply \<Rightarrow> action list" where
  "delivery P fd p r =
     Accept fd #
     (if lev_flags (snd p) AND LEV_OPT_LEAVE_SOCKETS_BLOCKING P = 0
      then [Make_socket_nonblocking (a_ret r)] else []) @
     [Callback (lev_cb (snd p)) (fst p) (a_ret r) (a_addr r) (a_len r)
        (lev_user_data (snd p))]"

subsection \<open>Example platforms and worlds\<close>

text \<open>
  A POSIX platform and a Windows platform with the values libevent's headers give the
  constants there, and a parser of the AcceptEx buffer that reads the two addresses at
  their offsets (family and port in the first four bytes of each half, then the host).
\<close>

definition posix :: platform where
  "posix =
     \<lparr>WIN32 = False,
      LEV_OPT_LEAVE_SOCKETS_BLOCKING = 1, LEV_OPT_CLOSE_ON_FREE = 2,
      LEV_OPT_CLOSE_ON_EXEC = 4, LEV_OPT_REUSEABLE = 8,
      EV_READ = 2, EV_PERSIST = 16,
      AF_UNSPEC = 0, AF_INET = 2, AF_INET6 = 10,
      INVALID_SOCKET = - 1, ERROR_IO_PENDING = 997,
      EVUTIL_ERR_ACCEPT_RETRIABLE = (\<lambda>e. e = 4 \<or> e = 11 \<or> e = 103),
      sizeof_evconnlistener_event = 160, sizeof_accepting_socket = 64,
      sizeof_pointer = 8, sizeof_sockaddr_in = 16, sizeof_sockaddr_in6 = 28,
      GetAcceptExSockaddrs = None\<rparr>"

definition windows :: platform where
  "windows =
     \<lparr>WIN32 = True,
      LEV_OPT_LEAVE_SOCKETS_BLOCKING = 1, LEV_OPT_CLOSE_ON_FREE = 2,
      LEV_OPT_CLOSE_ON_EXEC = 4, LEV_OPT_REUSEABLE = 8,
      EV_READ = 2, EV_PERSIST = 16,
      AF_UNSPEC = 0, AF_INET = 2, AF_INET6 = 23,
      INVALID_SOCKET = - 1, ERROR_IO_PENDING = 997,
      EVUTIL_ERR_ACCEPT_RETRIABLE = (\<lambda>e. e = 10035 \<or> e = 10004),
      sizeof_evconnlistener_event = 160, sizeof_accepting_socket = 64,
      sizeof_pointer = 8, sizeof_sockaddr_in = 16, sizeof_sockaddr_in6 = 28,
      GetAcceptExSockaddrs =
        Some (\<lambda>buf off llen rlen.
          ((\<lparr>sa_family = 2, sa_data = take 6 (drop 2 buf)\<rparr>, 16),
           (\<lparr>sa_family = 2, sa_data = take 6 (drop (nat llen + 2) buf)\<rparr>, 16)))\<rparr>"

text \<open>
  accept_fails e is a failing accept that leaves the error code e. In the quiet world
  nothing has been called yet, every call succeeds, the allocator
  returns 4096, 8192 and then 12288, socket returns descriptor 5, no connection is
  pending (accept fails with error 11), the listening socket is an AF_INET socket, and
  AcceptEx stays pending (error 997).
\<close>

definition accept_fails :: "int \<Rightarrow> accept_reply" where
  "accept_fails e =
     \<lparr>a_ret = - 1, a_addr = \<lparr>sa_family = 0, sa_data = []\<rparr>, a_len = 0, a_errno = e\<rparr>"

definition quiet :: world where
  "quiet =
     \<lparr>trace = [],
      rets = (\<lambda>c. case c of
                     C_mm_calloc \<Rightarrow> 4096 ## 8192 ## sconst 12288
                   | C_socket \<Rightarrow> sconst 5
                   | _ \<Rightarrow> sconst 0),
      accepts = sconst (accept_fails 11),
      socknames = sconst \<lparr>g_ret = 0,
                           g_addr = \<lparr>sa_family = 2, sa_data = [31, 144, 127, 0, 0, 1]\<rparr>\<rparr>,
      acceptexs = sconst \<lparr>x_ok = False, x_buf = [], x_error = 997\<rparr>,
      last_error = 0\<rparr>"

text \<open>A client connection as accept reports it: descriptor n, a peer on port 40000 + n.\<close>

definition client :: "int \<Rightarrow> accept_reply" where
  "client n =
     \<lparr>a_ret = n,
      a_addr = \<lparr>sa_family = 2, sa_data = [156, 64 + nat n, 127, 0, 0, 1]\<rparr>,
      a_len = 16, a_errno = 0\<rparr>"

text \<open>
  Worlds that differ from the quiet one in one answer: two clients are pending; one
  client is pending and the next accept fails with error 24, which is not retriable on
  the POSIX platform; event_add fails; evutil_make_socket_nonblocking fails; bind fails;
  the listening
  socket is of family 1 (a local socket); socket fails.
\<close>

definition two_clients :: world where
  "two_clients = quiet\<lparr>accepts := client 7 ## client 8 ## accepts quiet\<rparr>"

definition one_client_then_error :: world where
  "one_client_then_error =
     quiet\<lparr>accepts := client 7 ## accept_fails 24 ## accepts quiet\<rparr>"

definition event_add_fails :: world where
  "event_add_fails = quiet\<lparr>rets := (rets quiet)(C_event_add := sconst (- 1))\<rparr>"

definition nonblocking_fails :: world where
  "nonblocking_fails = quiet\<lparr>rets := (rets quiet)(C_make_socket_nonblocking := sconst (- 1))\<rparr>"

definition bind_fails :: world where
  "bind_fails = quiet\<lparr>rets := (rets quiet)(C_bind := sconst (- 1))\<rparr>"

definition unix_socket :: world where
  "unix_socket =
     quiet\<lparr>socknames := sconst \<lparr>g_ret = 0, g_addr = \<lparr>sa_family = 1, sa_data = []\<rparr>\<rparr>\<rparr>"

definition no_sockets :: world where
  "no_sockets = quiet\<lparr>rets := (rets quiet)(C_socket := sconst (- 1))\<rparr>"

text \<open>
  A readiness listener for descriptor 3 with no flag set, the same listener with
  LEV_OPT_LEAVE_SOCKETS_BLOCKING set, a completion listener for
  descriptor 3, and a slot of it whose accept has completed on socket 7; the second half
  of its buffer holds the peer address.
\<close>

definition listener3 :: "int \<times> evconnlistener_event" where
  "listener3 =
     (4096, \<lparr>lev_cb = 100, lev_user_data = 0, lev_flags = 0,
             listener = \<lparr>ev_base = 1, ev_fd = 3, ev_events = 18,
                         ev_callback = Listener_read_cb, ev_arg = 4096\<rparr>\<rparr>)"

definition listener3_blocking :: "int \<times> evconnlistener_event" where
  "listener3_blocking = (4096, (snd listener3)\<lparr>lev_flags := 1\<rparr>)"

definition slot7 :: "int \<times> accepting_socket" where
  "slot7 =
     (12288, \<lparr>as_overlapped = Accepted_socket_cb, as_s = 7, as_lev = 4096, as_buflen = 64,
              as_addrbuf = replicate 32 0 @ [2, 0, 156, 71, 127, 0, 0, 1] @ replicate 24 0\<rparr>)"

definition iocp_listener3 :: "int \<times> evconnlistener_iocp" where
  "iocp_listener3 =
     (4096, \<lparr>lev_cb = 100, lev_user_data = 0, lev_flags = 0,
             iocp_fd = 3, iocp_port = 0, n_accepting = 1,
             accepting = (8192, [Some slot7])\<rparr>)"

section \<open>Properties\<close>

subsection \<open>Auxiliary facts\<close>

lemmas collaborator_defs =
  emit_def answer_def listen_def socket_def evutil_make_socket_nonblocking_def
  fcntl_setfd_cloexec_def setsockopt_def evutil_make_listen_socket_reuseable_def
  bind_socket_def EVUTIL_CLOSESOCKET_def mm_calloc_def mm_free_def event_add_def
  event_del_def accept_def evutil_socket_geterror_def event_sock_warn_def event_warn_def
  event_warnx_def event_assign_def event_get_fd_def call_cb_def
  event_iocp_port_associate_def AcceptEx_def WSAGetLastError_def getsockname_def

lemma posix_fields:
  "WIN32 posix = False"
  "LEV_OPT_LEAVE_SOCKETS_BLOCKING posix = 1"
  "LEV_OPT_CLOSE_ON_FREE posix = 2"
  "LEV_OPT_CLOSE_ON_EXEC posix = 4"
  "LEV_OPT_REUSEABLE posix = 8"
  "EV_READ posix = 2"
  "EV_PERSIST posix = 16"
  "AF_UNSPEC posix = 0"
  "AF_INET posix = 2"
  "AF_INET6 posix = 10"
  "EVUTIL_ERR_ACCEPT_RETRIABLE posix = (\<lambda>e. e = 4 \<or> e = 11 \<or> e = 103)"
  "sizeof_evconnlistener_event posix = 160"
  by (simp_all add: posix_def)

lemma windows_fields:
  "LEV_OPT_LEAVE_SOCKETS_BLOCKING windows = 1"
  "AF_INET windows = 2"
  "AF_INET6 windows = 23"
  "INVALID_SOCKET windows = - 1"
  "ERROR_IO_PENDING windows = 997"
  "sizeof_evconnlistener_event windows = 160"
  "sizeof_accepting_socket windows = 64"
  "sizeof_pointer windows = 8"
  "sizeof_sockaddr_in windows = 16"
  "sizeof_sockaddr_in6 windows = 28"
  "GetAcceptExSockaddrs windows =
     Some (\<lambda>buf off llen rlen.
       ((\<lparr>sa_family = 2, sa_data = take 6 (drop 2 buf)\<rparr>, 16),
        (\<lparr>sa_family = 2, sa_data = take 6 (drop (nat llen + 2) buf)\<rparr>, 16)))"
  by (simp_all add: windows_def)

lemma trace_quiet: "trace quiet = []"
  by (simp add: quiet_def)

lemma listens_append: "listens (xs @ ys) = listens xs @ listens ys"
  by (induction xs rule: listens.induct) simp_all

lemma callbacks_append: "callbacks (xs @ ys) = callbacks xs @ callbacks ys"
  by (induction xs rule: callbacks.induct) simp_all

lemma teardowns_append: "teardowns (xs @ ys) = teardowns xs @ teardowns ys"
  by (induction xs rule: teardowns.induct) simp_all

text \<open>
  What a successful evconnlistener_new has built and called: the handle is a readiness
  handle with the caller's callback, context and flags, its registration is the one
  event_assign made for fd with EV_READ|EV_PERSIST and listener_read_cb, and the calls
  are the listen call (if any), the allocation and event_add on that registration.
\<close>

lemma evconnlistener_new_Some:
  assumes "evconnlistener_new P base cb ptr flags backlog fd w = (Some lev, w')"
  shows "snd lev = Event_handle
           \<lparr>lev_cb = cb, lev_user_data = ptr, lev_flags = flags,
            listener = event_assign base fd (EV_READ P OR EV_PERSIST P)
                         Listener_read_cb (fst lev)\<rparr>"
    and "trace w' = trace w @
           (if 0 < backlog then [Listen fd backlog]
            else if backlog < 0 then [Listen fd 128] else []) @
           [Mm_calloc 1 (sizeof_evconnlistener_event P),
            Event_add (event_assign base fd (EV_READ P OR EV_PERSIST P)
                         Listener_read_cb (fst lev))]"
  using assms
  by (auto simp add: evconnlistener_new_def collaborator_defs event_listener_enable_def
      Let_def split: prod.splits if_splits)

lemma evconnlistener_new_quiet:
  "evconnlistener_new posix 1 100 0 2 16 3 quiet =
     (Some (4096, Event_handle
        \<lparr>lev_cb = 100, lev_user_data = 0, lev_flags = 2,
         listener = \<lparr>ev_base = 1, ev_fd = 3, ev_events = 18,
                     ev_callback = Listener_read_cb, ev_arg = 4096\<rparr>\<rparr>),
      snd (evconnlistener_new posix 1 100 0 2 16 3 quiet))"
  by (simp add: evconnlistener_new_def collaborator_defs event_listener_enable_def
      Let_def quiet_def posix_def)

lemma listener3_fields:
  "fst listener3 = 4096" "lev_cb (snd listener3) = 100" "lev_user_data (snd listener3) = 0"
  "lev_flags (snd listener3) = 0"
  by (simp_all add: listener3_def)

lemma listener3_blocking_fields:
  "fst listener3_blocking = 4096" "lev_cb (snd listener3_blocking) = 100"
  "lev_user_data (snd listener3_blocking) = 0" "lev_flags (snd listener3_blocking) = 1"
  by (simp_all add: listener3_blocking_def listener3_def)

lemma accepts_quiet:
  "shd (accepts quiet) = accept_fails 11" "stl (accepts quiet) = accepts quiet"
  by (simp_all add: quiet_def)

lemma client_fields: "a_ret (client n) = n" "a_len (client n) = 16" "a_errno (client n) = 0"
  by (simp_all add: client_def)

lemma accept_fails_fields: "a_ret (accept_fails e) = - 1" "a_errno (accept_fails e) = e"
  by (simp_all add: accept_fails_def)

lemma quiet_event_add: "shd (rets quiet C_event_add) = 0"
  by (simp add: quiet_def)

lemma fst_evconnlistener_new_quiet:
  "fst (evconnlistener_new posix 1 100 0 2 16 3 quiet) =
     Some (4096, Event_handle
        \<lparr>lev_cb = 100, lev_user_data = 0, lev_flags = 2,
         listener = \<lparr>ev_base = 1, ev_fd = 3, ev_events = 18,
                     ev_callback = Listener_read_cb, ev_arg = 4096\<rparr>\<rparr>)"
  using evconnlistener_new_quiet by (metis fst_conv)

subsection \<open>The constructors and the destructor of the readiness backend\<close>

text \<open>
  Claim C5. For every backlog argument, the listen calls evconnlistener_new adds to the
  trace are: one call with exactly that backlog when backlog > 0, one call with 128 when
  backlog < 0, and none when backlog = 0. evconnlistener_new_bind with backlog 0 returns
  NULL and leaves the world as it was: no call has been made.
\<close>

theorem backlog_translation:
  "listens (trace (snd (evconnlistener_new P base cb ptr flags backlog fd w))) =
     listens (trace w) @
     (if 0 < backlog then [(fd, backlog)] else if backlog < 0 then [(fd, 128)] else [])
   \<and> evconnlistener_new_bind P base cb ptr flags 0 sa socklen w = (None, w)"
  by (simp add: evconnlistener_new_def evconnlistener_new_bind_def collaborator_defs
      event_listener_enable_def listens_append Let_def split: prod.splits)

text \<open>
  Claim C9, as amended. The claim as it stands (a returned handle is in the enabled
  state) does not hold in every world: the constructor calls evconnlistener_enable and
  drops its status, so it returns the handle also when event_add fails. What holds:
  whenever evconnlistener_new returns a handle, the handle is a readiness handle whose
  registration is for fd, with EV_READ|EV_PERSIST and listener_read_cb; the last call the
  constructor made before it returned is event_add on that registration, and it has
  called no event_del, close or free; and after the constructor's calls the reactor
  holds that registration armed if event_add answered 0, and holds what it held before
  if event_add failed. So the handle is in the enabled state whenever event_add
  succeeded.
\<close>

theorem new_enabled_when_event_add_succeeds:
  assumes "evconnlistener_new P base cb ptr flags backlog fd w = (Some lev, w')"
  shows "snd lev = Event_handle
           \<lparr>lev_cb = cb, lev_user_data = ptr, lev_flags = flags,
            listener = event_assign base fd (EV_READ P OR EV_PERSIST P)
                         Listener_read_cb (fst lev)\<rparr>
       \<and> trace w' \<noteq> []
       \<and> last (trace w') =
           Event_add (event_assign base fd (EV_READ P OR EV_PERSIST P)
                        Listener_read_cb (fst lev))
       \<and> teardowns (trace w') = teardowns (trace w)
       \<and> reactor (rets w C_event_add) (rets w C_event_del) S
           (drop (length (trace w)) (trace w')) =
           (if shd (rets w C_event_add) = 0
            then insert (event_assign base fd (EV_READ P OR EV_PERSIST P)
                           Listener_read_cb (fst lev)) S
            else S)"
  using evconnlistener_new_Some [OF assms]
  by (simp add: teardowns_append)

theorem new_enabled_when_event_add_succeeds_witness:
  "fst (evconnlistener_new posix 1 100 0 2 16 3 quiet) =
     Some (4096, Event_handle
        \<lparr>lev_cb = 100, lev_user_data = 0, lev_flags = 2,
         listener = \<lparr>ev_base = 1, ev_fd = 3, ev_events = 18,
                     ev_callback = Listener_read_cb, ev_arg = 4096\<rparr>\<rparr>)
   \<and> last (trace (snd (evconnlistener_new posix 1 100 0 2 16 3 quiet))) =
       Event_add \<lparr>ev_base = 1, ev_fd = 3, ev_events = 18,
                  ev_callback = Listener_read_cb, ev_arg = 4096\<rparr>
   \<and> reactor (rets quiet C_event_add) (rets quiet C_event_del) {}
       (trace (snd (evconnlistener_new posix 1 100 0 2 16 3 quiet))) =
       {\<lparr>ev_base = 1, ev_fd = 3, ev_events = 18,
         ev_callback = Listener_read_cb, ev_arg = 4096\<rparr>}"
  using new_enabled_when_event_add_succeeds [OF evconnlistener_new_quiet, of "{}"]
  by (simp add: fst_evconnlistener_new_quiet event_assign_def posix_fields trace_quiet
      quiet_event_add)

text \<open>
  The counterexample to claim C9 as it stands: in the world event_add_fails the reactor
  answers event_add with -1. evconnlistener_new still returns the handle at 4096, and
  after its calls (listen, the allocation, the failed event_add) the reactor does not
  hold the handle's registration: the handle is returned and is not enabled.
\<close>

theorem new_returns_handle_not_enabled:
  "fst (evconnlistener_new posix 1 100 0 2 16 3 event_add_fails) =
     Some (4096, Event_handle
        \<lparr>lev_cb = 100, lev_user_data = 0, lev_flags = 2,
         listener = \<lparr>ev_base = 1, ev_fd = 3, ev_events = 18,
                     ev_callback = Listener_read_cb, ev_arg = 4096\<rparr>\<rparr>)
   \<and> trace (snd (evconnlistener_new posix 1 100 0 2 16 3 event_add_fails)) =
       [Listen 3 16, Mm_calloc 1 160,
        Event_add \<lparr>ev_base = 1, ev_fd = 3, ev_events = 18,
                   ev_callback = Listener_read_cb, ev_arg = 4096\<rparr>]
   \<and> shd (rets event_add_fails C_event_add) = - 1
   \<and> \<lparr>ev_base = 1, ev_fd = 3, ev_events = 18,
       ev_callback = Listener_read_cb, ev_arg = 4096\<rparr>
       \<notin> reactor (rets event_add_fails C_event_add) (rets event_add_fails C_event_del) {}
           (trace (snd (evconnlistener_new posix 1 100 0 2 16 3 event_add_fails)))"
  by (simp add: evconnlistener_new_def collaborator_defs event_listener_enable_def
      Let_def event_add_fails_def quiet_def posix_def)

text \<open>
  Claim C8. Destroying a handle that evconnlistener_new returned for the descriptor fd
  makes exactly these calls, in this order: event_del on the handle's registration, then
  close on fd if and only if LEV_OPT_CLOSE_ON_FREE is set in the flags the handle was
  built with, then mm_free on the handle. With the flag unset no close is called, so the
  descriptor stays open for the caller.
\<close>

theorem free_order:
  assumes "evconnlistener_new P base cb ptr flags backlog fd w0 = (Some lev, w1)"
  shows "trace (evconnlistener_free P lev w) =
           trace w @
           [Event_del (event_assign base fd (EV_READ P OR EV_PERSIST P)
                         Listener_read_cb (fst lev))] @
           (if flags AND LEV_OPT_CLOSE_ON_FREE P \<noteq> 0 then [Closesocket fd] else []) @
           [Mm_free (fst lev)]"
proof -
  obtain p h where lev: "lev = (p, h)"
    by (cases lev)
  from evconnlistener_new_Some(1) [OF assms] lev
  have h: "h = Event_handle
             \<lparr>lev_cb = cb, lev_user_data = ptr, lev_flags = flags,
              listener = event_assign base fd (EV_READ P OR EV_PERSIST P)
                           Listener_read_cb p\<rparr>"
    by simp
  show ?thesis
    by (simp add: lev h event_listener_destroy_def collaborator_defs Let_def)
qed

theorem free_order_witness:
  "trace (evconnlistener_free posix
            (the (fst (evconnlistener_new posix 1 100 0 2 16 3 quiet))) quiet) =
     [Event_del \<lparr>ev_base = 1, ev_fd = 3, ev_events = 18,
                 ev_callback = Listener_read_cb, ev_arg = 4096\<rparr>,
      Closesocket 3, Mm_free 4096]"
  using free_order [OF evconnlistener_new_quiet, of quiet]
  by (simp add: fst_evconnlistener_new_quiet event_assign_def posix_fields trace_quiet)

text \<open>
  For every world in which the bind helper's socket call succeeds and
  evutil_make_socket_nonblocking fails: the helper returns NULL after these two calls,
  without a close.
\<close>

lemma evconnlistener_new_bind_nonblocking_failure:
  assumes "backlog \<noteq> 0" and "shd (rets w C_socket) \<noteq> - 1"
    and "shd (rets w C_make_socket_nonblocking) < 0"
  shows "\<exists>w'. evconnlistener_new_bind P base cb ptr flags backlog sa socklen w = (None, w')
           \<and> trace w' = trace w @
               [Socket (case sa of Some a \<Rightarrow> sa_family a | None \<Rightarrow> AF_UNSPEC P),
                Make_socket_nonblocking (shd (rets w C_socket))]"
  using assms
  by (simp add: evconnlistener_new_bind_def collaborator_defs Let_def)

text \<open>
  Claim C3 does not hold of the code. When evutil_make_socket_nonblocking fails on the
  socket the bind helper has just created (descriptor 5), the helper returns NULL and the
  only calls it has made are socket and evutil_make_socket_nonblocking: descriptor 5 is
  never closed. When bind fails instead, the helper does close descriptor 5 before it
  returns NULL.
\<close>

theorem bind_helper_leaks_socket:
  "(\<exists>w'. evconnlistener_new_bind posix 1 100 0 0 16
            (Some \<lparr>sa_family = 2, sa_data = [31, 144, 127, 0, 0, 1]\<rparr>) 16 nonblocking_fails =
            (None, w')
      \<and> trace w' = [Socket 2, Make_socket_nonblocking 5])
   \<and> (\<exists>w'. evconnlistener_new_bind posix 1 100 0 0 16
            (Some \<lparr>sa_family = 2, sa_data = [31, 144, 127, 0, 0, 1]\<rparr>) 16 bind_fails =
            (None, w')
      \<and> trace w' =
          [Socket 2, Make_socket_nonblocking 5, Setsockopt 5 SO_KEEPALIVE,
           Bind 5 \<lparr>sa_family = 2, sa_data = [31, 144, 127, 0, 0, 1]\<rparr> 16, Closesocket 5])"
  by (simp add: evconnlistener_new_bind_def collaborator_defs nonblocking_fails_def
      bind_fails_def quiet_def posix_def Let_def)

subsection \<open>The drain routine of the readiness backend\<close>

text \<open>
  One turn of the loop. When the next accept fails, the loop ends in the world that
  accept left. When it succeeds, the loop goes on from the world after the calls of
  delivery, with the kernel's next answers.
\<close>

lemma listener_read_cb_loop_stop:
  assumes "a_ret (shd (accepts w)) < 0"
  shows "listener_read_cb_loop P fd p w =
           Some ((emit (Accept fd) w)
                   \<lparr>accepts := stl (accepts w), last_error := a_errno (shd (accepts w))\<rparr>)"
  by (subst listener_read_cb_loop.simps) (simp add: assms accept_def Let_def)

lemma listener_read_cb_loop_step:
  assumes "0 \<le> a_ret r" and "accepts w = r ## s"
  shows "\<exists>w3. listener_read_cb_loop P fd p w = listener_read_cb_loop P fd p w3
           \<and> trace w3 = trace w @ delivery P fd p r \<and> accepts w3 = s"
proof -
  let ?w1 = "snd (accept fd w)"
  let ?w2 = "if lev_flags (snd p) AND LEV_OPT_LEAVE_SOCKETS_BLOCKING P = 0
             then snd (evutil_make_socket_nonblocking (a_ret r) ?w1) else ?w1"
  let ?w3 = "call_cb (lev_cb (snd p)) (fst p) (a_ret r) (a_addr r) (a_len r)
               (lev_user_data (snd p)) ?w2"
  have r: "fst (accept fd w) = r"
    by (simp add: accept_def assms(2) Let_def)
  have "listener_read_cb_loop P fd p w = listener_read_cb_loop P fd p ?w3"
    using assms(1) by (subst listener_read_cb_loop.simps) (simp add: r Let_def)
  moreover have "trace ?w3 = trace w @ delivery P fd p r"
    using assms by (simp add: delivery_def collaborator_defs Let_def)
  moreover have "accepts ?w3 = s"
    using assms by (simp add: collaborator_defs Let_def)
  ultimately show ?thesis
    by blast
qed

text \<open>
  The whole loop, by induction on the connections that are pending: when the kernel
  answers the next accepts with the connections conns and then with a failure, the loop
  returns, it has made the calls of delivery for each connection in order and then the
  failing accept, and the failure's error code is the last error.
\<close>

lemma listener_read_cb_loop_drain:
  assumes "accepts w = conns @- s" and "\<forall>r\<in>set conns. 0 \<le> a_ret r"
    and "a_ret (shd s) < 0"
  shows "\<exists>w'. listener_read_cb_loop P fd p w = Some w'
           \<and> trace w' = trace w @ concat (map (delivery P fd p) conns) @ [Accept fd]
           \<and> accepts w' = stl s \<and> last_error w' = a_errno (shd s)"
  using assms
proof (induction conns arbitrary: w)
  case Nil
  then show ?case
    by (simp add: listener_read_cb_loop_stop emit_def)
next
  case (Cons r conns)
  from Cons.prems have "0 \<le> a_ret r" and "accepts w = r ## (conns @- s)"
    by simp_all
  from listener_read_cb_loop_step [OF this]
  obtain w3 where w3: "listener_read_cb_loop P fd p w = listener_read_cb_loop P fd p w3"
      "trace w3 = trace w @ delivery P fd p r" "accepts w3 = conns @- s"
    by blast
  from Cons.IH [OF w3(3)] Cons.prems
  obtain w' where "listener_read_cb_loop P fd p w3 = Some w'"
      "trace w' = trace w3 @ concat (map (delivery P fd p) conns) @ [Accept fd]"
      "accepts w' = stl s" "last_error w' = a_errno (shd s)"
    by auto
  with w3 show ?case
    by simp
qed

lemma listener_read_cb_drain:
  assumes "accepts w = conns @- s" and "\<forall>r\<in>set conns. 0 \<le> a_ret r"
    and "a_ret (shd s) < 0"
  shows "\<exists>w'. listener_read_cb P fd what p w = Some w'
           \<and> trace w' = trace w @ concat (map (delivery P fd p) conns) @
               Accept fd #
               (if EVUTIL_ERR_ACCEPT_RETRIABLE P (a_errno (shd s)) then []
                else [Event_sock_warn fd ''Error from accept() call''])
           \<and> accepts w' = stl s"
proof -
  from listener_read_cb_loop_drain [OF assms, of P fd p]
  obtain w1 where "listener_read_cb_loop P fd p w = Some w1"
      "trace w1 = trace w @ concat (map (delivery P fd p) conns) @ [Accept fd]"
      "accepts w1 = stl s" "last_error w1 = a_errno (shd s)"
    by blast
  then show ?thesis
    by (simp add: listener_read_cb_def evutil_socket_geterror_def event_sock_warn_def
        emit_def Let_def)
qed

text \<open>
  The converse: the loop, and so the routine, returns only in a world where some accept
  answer fails. While accept succeeds the routine does not go back to the reactor.
\<close>

lemma listener_read_cb_loop_returns_only_on_failure:
  assumes "listener_read_cb_loop P fd p w = Some w'"
  shows "\<exists>n. a_ret (accepts w !! n) < 0"
proof -
  let ?Q = "\<lambda>(x :: ((platform \<times> int) \<times> int \<times> evconnlistener_event) \<times> world) (y :: world).
              \<exists>n. a_ret (accepts (snd x) !! n) < 0"
  have "?Q (((P, fd), p), w) w'"
  proof (rule listener_read_cb_loop.raw_induct [where Pa = ?Q, OF _ assms])
    fix loop :: "platform \<Rightarrow> int \<Rightarrow> int \<times> evconnlistener_event \<Rightarrow> world \<Rightarrow> world option"
    fix P fd p w y
    assume IH: "\<And>P fd p w y. loop P fd p w = Some y \<Longrightarrow> ?Q (((P, fd), p), w) y"
    assume body:
      "(let r = fst (accept fd w); w1 = snd (accept fd w)
        in if a_ret r < 0 then Some w1
           else let w2 = if lev_flags (snd p) AND LEV_OPT_LEAVE_SOCKETS_BLOCKING P = 0
                         then snd (evutil_make_socket_nonblocking (a_ret r) w1) else w1
                in Let (call_cb (lev_cb (snd p)) (fst p) (a_ret r) (a_addr r) (a_len r)
                          (lev_user_data (snd p)) w2)
                     (loop P fd p)) = Some y"
    show "?Q (((P, fd), p), w) y"
    proof (cases "a_ret (shd (accepts w)) < 0")
      case True
      then have "a_ret (accepts w !! 0) < 0"
        by simp
      then have "\<exists>n. a_ret (accepts w !! n) < 0"
        by (rule exI)
      then show ?thesis
        by simp
    next
      case False
      let ?r = "shd (accepts w)"
      let ?w1 = "snd (accept fd w)"
      let ?w2 = "if lev_flags (snd p) AND LEV_OPT_LEAVE_SOCKETS_BLOCKING P = 0
                 then snd (evutil_make_socket_nonblocking (a_ret ?r) ?w1) else ?w1"
      let ?w3 = "call_cb (lev_cb (snd p)) (fst p) (a_ret ?r) (a_addr ?r) (a_len ?r)
                   (lev_user_data (snd p)) ?w2"
      have r: "fst (accept fd w) = ?r"
        by (simp add: accept_def Let_def)
      from body False have "loop P fd p ?w3 = Some y"
        by (simp add: r Let_def)
      from IH [OF this] obtain n where n: "a_ret (accepts ?w3 !! n) < 0"
        by auto
      have "accepts ?w3 = stl (accepts w)"
        using False by (simp add: collaborator_defs Let_def)
      with n have "a_ret (accepts w !! Suc n) < 0"
        by simp
      then have "\<exists>n. a_ret (accepts w !! n) < 0"
        by (rule exI)
      then show ?thesis
        by simp
    qed
  qed
  then show ?thesis
    by simp
qed

lemma listener_read_cb_returns_only_on_failure:
  assumes "listener_read_cb P fd what p w = Some w'"
  shows "\<exists>n. a_ret (accepts w !! n) < 0"
proof -
  from assms obtain w1 where "listener_read_cb_loop P fd p w = Some w1"
    by (auto simp add: listener_read_cb_def split: option.splits)
  then show ?thesis
    by (rule listener_read_cb_loop_returns_only_on_failure)
qed

lemma callbacks_delivery:
  "callbacks (concat (map (delivery P fd p) conns)) =
     map (\<lambda>r. (a_ret r, a_addr r, a_len r)) conns"
  by (induction conns) (simp_all add: delivery_def callbacks_append)

lemma teardowns_delivery: "teardowns (concat (map (delivery P fd p) conns)) = []"
  by (induction conns) (simp_all add: delivery_def teardowns_append)

text \<open>
  Claim C4. On a readiness notification, let the kernel answer the next accept calls
  with the pending connections conns (any number of them, each a successful accept) and
  then with a failure. Then listener_read_cb returns, and the calls of the user callback
  it has added are exactly one per pending connection, in accept order, each with that
  connection's descriptor, address and address length. It has used up the answers for
  conns and the one failing answer and no more: it went on after the first connection
  and stopped at the first accept that failed.
\<close>

theorem drain_delivers_every_connection:
  assumes "accepts w = conns @- s" and "\<forall>r\<in>set conns. 0 \<le> a_ret r"
    and "a_ret (shd s) < 0"
  shows "\<exists>w'. listener_read_cb P fd what p w = Some w'
           \<and> callbacks (trace w') =
               callbacks (trace w) @ map (\<lambda>r. (a_ret r, a_addr r, a_len r)) conns
           \<and> accepts w' = stl s"
proof -
  from listener_read_cb_drain [OF assms, of P fd what p]
  obtain w' where w': "listener_read_cb P fd what p w = Some w'"
      "trace w' = trace w @ concat (map (delivery P fd p) conns) @
         Accept fd #
         (if EVUTIL_ERR_ACCEPT_RETRIABLE P (a_errno (shd s)) then []
          else [Event_sock_warn fd ''Error from accept() call''])"
      "accepts w' = stl s"
    by blast
  have "callbacks (trace w') =
          callbacks (trace w) @ map (\<lambda>r. (a_ret r, a_addr r, a_len r)) conns"
    by (simp add: w'(2) callbacks_append callbacks_delivery)
  with w'(1,3) show ?thesis
    by simp
qed

theorem drain_delivers_every_connection_witness:
  "\<exists>w'. listener_read_cb posix 3 2 listener3 two_clients = Some w'
     \<and> callbacks (trace w') = [(7, a_addr (client 7), 16), (8, a_addr (client 8), 16)]
     \<and> accepts w' = accepts quiet"
proof -
  have "accepts two_clients = [client 7, client 8] @- accepts quiet"
    and "\<forall>r\<in>set [client 7, client 8]. 0 \<le> a_ret r"
    and "a_ret (shd (accepts quiet)) < 0"
    by (simp_all add: two_clients_def client_fields accepts_quiet accept_fails_fields)
  from drain_delivers_every_connection [OF this, of posix 3 2 listener3]
  show ?thesis
    by (auto simp add: two_clients_def trace_quiet client_fields accepts_quiet)
qed

text \<open>
  Claim C6. When the accept attempt of the drain routine fails (after any number of
  delivered connections), listener_read_cb returns normally and what it calls after the
  failing accept depends on the class of the error alone: nothing when
  EVUTIL_ERR_ACCEPT_RETRIABLE holds of the error code, and the one warning
  event_sock_warn(fd, "Error from accept() call") when it does not. In either class the
  routine has called no event_del, no close and no free: the registration is left with
  the reactor as it was, and nothing of the listener is taken down.
\<close>

theorem accept_error_classification:
  assumes "accepts w = conns @- s" and "\<forall>r\<in>set conns. 0 \<le> a_ret r"
    and "a_ret (shd s) < 0"
  shows "\<exists>w'. listener_read_cb P fd what p w = Some w'
           \<and> trace w' = trace w @ concat (map (delivery P fd p) conns) @
               Accept fd #
               (if EVUTIL_ERR_ACCEPT_RETRIABLE P (a_errno (shd s)) then []
                else [Event_sock_warn fd ''Error from accept() call''])
           \<and> teardowns (trace w') = teardowns (trace w)"
proof -
  from listener_read_cb_drain [OF assms, of P fd what p]
  obtain w' where w': "listener_read_cb P fd what p w = Some w'"
      "trace w' = trace w @ concat (map (delivery P fd p) conns) @
         Accept fd #
         (if EVUTIL_ERR_ACCEPT_RETRIABLE P (a_errno (shd s)) then []
          else [Event_sock_warn fd ''Error from accept() call''])"
    by blast
  have "teardowns (trace w') = teardowns (trace w)"
    by (simp add: w'(2) teardowns_append teardowns_delivery)
  with w' show ?thesis
    by simp
qed

theorem accept_error_classification_witness:
  "(\<exists>w'. listener_read_cb posix 3 2 listener3 one_client_then_error = Some w'
      \<and> trace w' =
          [Accept 3, Make_socket_nonblocking 7, Callback 100 4096 7 (a_addr (client 7)) 16 0,
           Accept 3, Event_sock_warn 3 ''Error from accept() call''])
   \<and> (\<exists>w'. listener_read_cb posix 3 2 listener3 quiet = Some w' \<and> trace w' = [Accept 3])"
proof -
  have "accepts one_client_then_error = [client 7] @- (accept_fails 24 ## accepts quiet)"
    and "\<forall>r\<in>set [client 7]. 0 \<le> a_ret r"
    and "a_ret (shd (accept_fails 24 ## accepts quiet)) < 0"
    by (simp_all add: one_client_then_error_def client_fields accept_fails_fields)
  from accept_error_classification [OF this, of posix 3 2 listener3]
  have one: "\<exists>w'. listener_read_cb posix 3 2 listener3 one_client_then_error = Some w'
      \<and> trace w' =
          [Accept 3, Make_socket_nonblocking 7, Callback 100 4096 7 (a_addr (client 7)) 16 0,
           Accept 3, Event_sock_warn 3 ''Error from accept() call'']"
    by (auto simp add: one_client_then_error_def trace_quiet delivery_def listener3_fields
        client_fields accept_fails_fields posix_fields)
  have "accepts quiet = [] @- accepts quiet" and "\<forall>r\<in>set []. 0 \<le> a_ret r"
    and "a_ret (shd (accepts quiet)) < 0"
    by (simp_all add: accepts_quiet accept_fails_fields)
  from accept_error_classification [OF this, of posix 3 2 listener3]
  have "\<exists>w'. listener_read_cb posix 3 2 listener3 quiet = Some w' \<and> trace w' = [Accept 3]"
    by (auto simp add: trace_quiet accepts_quiet accept_fails_fields posix_fields)
  with one show ?thesis
    by simp
qed

text \<open>
  Claim C7. For every connection the drain routine accepts: when
  LEV_OPT_LEAVE_SOCKETS_BLOCKING is unset in the handle's flags, the routine calls
  evutil_make_socket_nonblocking on the new descriptor after the accept and before the
  call of the user callback with that descriptor; when the flag is set, the callback
  follows the accept at once and nothing is called on the descriptor in between.
\<close>

theorem accepted_descriptors_nonblocking:
  assumes "accepts w = conns @- s" and "\<forall>r\<in>set conns. 0 \<le> a_ret r"
    and "a_ret (shd s) < 0"
  shows "\<exists>w'. listener_read_cb P fd what p w = Some w'
           \<and> trace w' = trace w @
               concat (map (\<lambda>r.
                 if lev_flags (snd p) AND LEV_OPT_LEAVE_SOCKETS_BLOCKING P = 0
                 then [Accept fd, Make_socket_nonblocking (a_ret r),
                       Callback (lev_cb (snd p)) (fst p) (a_ret r) (a_addr r) (a_len r)
                         (lev_user_data (snd p))]
                 else [Accept fd,
                       Callback (lev_cb (snd p)) (fst p) (a_ret r) (a_addr r) (a_len r)
                         (lev_user_data (snd p))]) conns) @
               Accept fd #
               (if EVUTIL_ERR_ACCEPT_RETRIABLE P (a_errno (shd s)) then []
                else [Event_sock_warn fd ''Error from accept() call''])"
proof -
  have "delivery P fd p =
          (\<lambda>r. if lev_flags (snd p) AND LEV_OPT_LEAVE_SOCKETS_BLOCKING P = 0
                then [Accept fd, Make_socket_nonblocking (a_ret r),
                      Callback (lev_cb (snd p)) (fst p) (a_ret r) (a_addr r) (a_len r)
                        (lev_user_data (snd p))]
                else [Accept fd,
                      Callback (lev_cb (snd p)) (fst p) (a_ret r) (a_addr r) (a_len r)
                        (lev_user_data (snd p))])"
    by (rule ext) (simp add: delivery_def)
  with listener_read_cb_drain [OF assms, of P fd what p] show ?thesis
    by auto
qed

theorem accepted_descriptors_nonblocking_witness:
  "(\<exists>w'. listener_read_cb posix 3 2 listener3 two_clients = Some w'
      \<and> trace w' =
          [Accept 3, Make_socket_nonblocking 7, Callback 100 4096 7 (a_addr (client 7)) 16 0,
           Accept 3, Make_socket_nonblocking 8, Callback 100 4096 8 (a_addr (client 8)) 16 0,
           Accept 3])
   \<and> (\<exists>w'. listener_read_cb posix 3 2 listener3_blocking two_clients = Some w'
      \<and> trace w' =
          [Accept 3, Callback 100 4096 7 (a_addr (client 7)) 16 0,
           Accept 3, Callback 100 4096 8 (a_addr (client 8)) 16 0,
           Accept 3])"
proof -
  have h: "accepts two_clients = [client 7, client 8] @- accepts quiet"
    "\<forall>r\<in>set [client 7, client 8]. 0 \<le> a_ret r"
    "a_ret (shd (accepts quiet)) < 0"
    by (simp_all add: two_clients_def client_fields accepts_quiet accept_fails_fields)
  from accepted_descriptors_nonblocking [OF h, of posix 3 2 listener3]
  have one: "\<exists>w'. listener_read_cb posix 3 2 listener3 two_clients = Some w'
      \<and> trace w' =
          [Accept 3, Make_socket_nonblocking 7, Callback 100 4096 7 (a_addr (client 7)) 16 0,
           Accept 3, Make_socket_nonblocking 8, Callback 100 4096 8 (a_addr (client 8)) 16 0,
           Accept 3]"
    by (auto simp add: two_clients_def trace_quiet listener3_fields client_fields
        accepts_quiet accept_fails_fields posix_fields)
  from accepted_descriptors_nonblocking [OF h, of posix 3 2 listener3_blocking]
  have "\<exists>w'. listener_read_cb posix 3 2 listener3_blocking two_clients = Some w'
      \<and> trace w' =
          [Accept 3, Callback 100 4096 7 (a_addr (client 7)) 16 0,
           Accept 3, Callback 100 4096 8 (a_addr (client 8)) 16 0,
           Accept 3]"
    by (auto simp add: two_clients_def trace_quiet listener3_blocking_fields client_fields
        accepts_quiet accept_fails_fields posix_fields)
  with one show ?thesis
    by simp
qed

subsection \<open>The completion backend\<close>

text \<open>
  The two functions as the source writes them, each in terms of the other.
\<close>

lemma start_accepting_unfold:
  "start_accepting P lev asock w =
     (let s = fst (socket (AF_INET P) w); w1 = snd (socket (AF_INET P) w)
      in if s = INVALID_SOCKET P then Some (Returned (- 1, snd asock) w1)
         else
           let w2 = setsockopt s SO_UPDATE_ACCEPT_CONTEXT w1;
               w3 = (if lev_flags (snd lev) AND LEV_OPT_LEAVE_SOCKETS_BLOCKING P = 0
                     then snd (evutil_make_socket_nonblocking s w2) else w2);
               rc = fst (event_iocp_port_associate (iocp_port (snd lev)) s 1 w3);
               w4 = snd (event_iocp_port_associate (iocp_port (snd lev)) s 1 w3)
           in if rc < 0 then Some (Returned (- 1, snd asock) w4)
              else
                let as1 = (snd asock)\<lparr>as_s := s\<rparr>;
                    x = fst (AcceptEx (iocp_fd (snd lev)) s (as_buflen as1 sdiv 2) w4);
                    w5 = snd (AcceptEx (iocp_fd (snd lev)) s (as_buflen as1 sdiv 2) w4)
                in if x_ok x
                   then Option.bind
                          (accepted_socket_cb P lev
                             (fst asock, as1\<lparr>as_addrbuf := x_buf x\<rparr>) w5)
                          (\<lambda>r. case r of
                                  Aborted wa \<Rightarrow> Some (Aborted wa)
                                | Returned v w6 \<Rightarrow> Some (Returned (0, snd v) w6))
                   else if WSAGetLastError w5 = ERROR_IO_PENDING P
                        then Some (Returned (0, as1) w5)
                        else Some (Returned (- 1, as1) w5))"
  unfolding start_accepting_def accepted_socket_cb_def
  by (subst iocp_run.simps) simp

lemma accepted_socket_cb_unfold:
  "accepted_socket_cb P lev asock w =
     (case GetAcceptExSockaddrs P of
        None \<Rightarrow> Some (Aborted w)
      | Some ext \<Rightarrow>
          let addrs = ext (as_addrbuf (snd asock)) 0 (as_buflen (snd asock) sdiv 2)
                        (as_buflen (snd asock) sdiv 2);
              sa_remote = fst (snd addrs);
              socklen_remote = snd (snd addrs);
              as1 = (snd asock)\<lparr>as_s := INVALID_SOCKET P\<rparr>;
              w1 = call_cb (lev_cb (snd lev)) (fst lev) (as_s as1) sa_remote
                     socklen_remote (lev_user_data (snd lev)) w
          in Option.bind (start_accepting P lev (fst asock, as1) w1)
               (\<lambda>r. case r of
                       Aborted wa \<Rightarrow> Some (Aborted wa)
                     | Returned v w2 \<Rightarrow> Some (Returned (0, snd v) w2)))"
  unfolding start_accepting_def accepted_socket_cb_def
  by (subst iocp_run.simps) simp

lemma no_sockets_fields:
  "trace no_sockets = []" "shd (rets no_sockets C_socket) = - 1"
  by (simp_all add: no_sockets_def quiet_def)

lemma unix_socket_fields:
  "sa_family (g_addr (shd (socknames unix_socket))) = 1"
  by (simp add: unix_socket_def)

text \<open>
  For every slot and every world: accepted_socket_cb calls the user callback with
  INVALID_SOCKET as the descriptor, whatever socket the slot held, and then re-arms the
  slot.
\<close>

lemma accepted_socket_cb_hands_invalid_socket:
  assumes "GetAcceptExSockaddrs P = Some ext"
  shows "accepted_socket_cb P lev asock w =
           Option.bind
             (start_accepting P lev (fst asock, (snd asock)\<lparr>as_s := INVALID_SOCKET P\<rparr>)
                (emit (Callback (lev_cb (snd lev)) (fst lev) (INVALID_SOCKET P)
                         (fst (snd (ext (as_addrbuf (snd asock)) 0
                                      (as_buflen (snd asock) sdiv 2)
                                      (as_buflen (snd asock) sdiv 2))))
                         (snd (snd (ext (as_addrbuf (snd asock)) 0
                                      (as_buflen (snd asock) sdiv 2)
                                      (as_buflen (snd asock) sdiv 2))))
                         (lev_user_data (snd lev))) w))
             (\<lambda>r. case r of
                     Aborted wa \<Rightarrow> Some (Aborted wa)
                   | Returned v w2 \<Rightarrow> Some (Returned (0, snd v) w2))"
  by (simp add: accepted_socket_cb_unfold assms call_cb_def Let_def)

text \<open>
  Claim C1 does not hold of the code. The slot slot7 holds the accepted socket 7 and the
  peer address in its buffer. accepted_socket_cb extracts the peer address, then assigns
  INVALID_SOCKET (here -1) to the slot's socket, and only then calls the user callback
  with the slot's socket: the callback receives -1 and not 7. (In the world no_sockets
  the re-arming that follows fails at its socket call, so the run ends there.)
\<close>

theorem accepted_socket_cb_passes_invalid_socket:
  "as_s (snd slot7) = 7 \<and> INVALID_SOCKET windows = - 1
   \<and> (\<exists>v w'. accepted_socket_cb windows iocp_listener3 slot7 no_sockets = Some (Returned v w')
        \<and> trace w' =
            [Callback 100 4096 (- 1) \<lparr>sa_family = 2, sa_data = [156, 71, 127, 0, 0, 1]\<rparr> 16 0,
             Socket 2])"
  by (simp add: accepted_socket_cb_unfold start_accepting_unfold windows_fields Let_def
      collaborator_defs no_sockets_fields slot7_def iocp_listener3_def)

text \<open>
  Claim C2 does not hold of the code. In the quiet world every step of
  evconnlistener_new_async succeeds (listen, getsockname, the three allocations, the
  slot's socket, its association with the port, and AcceptEx, which stays pending), so
  start_accepting returns 0; the constructor then takes its failure branch: it logs
  "Couldn't start accepting on socket" and returns NULL, and it frees and closes nothing.
  In the world no_sockets the slot's socket cannot be created, start_accepting returns
  -1, and the constructor returns the handle.
\<close>

theorem async_constructor_inverted_test:
  "(\<exists>w'. evconnlistener_new_async windows 1 100 0 0 16 3 quiet = Some (Returned None w')
      \<and> trace w' =
          [Listen 3 16, Getsockname 3, Mm_calloc 1 160, Mm_calloc 1 8, Mm_calloc 1 127,
           Socket 2, Setsockopt 5 SO_UPDATE_ACCEPT_CONTEXT, Make_socket_nonblocking 5,
           Port_associate 0 5 1, Accept_ex 3 5 32,
           Event_warnx ''Couldn't start accepting on socket''])
   \<and> (\<exists>h w'. evconnlistener_new_async windows 1 100 0 0 16 3 no_sockets =
               Some (Returned (Some h) w')
      \<and> trace w' =
          [Listen 3 16, Getsockname 3, Mm_calloc 1 160, Mm_calloc 1 8, Mm_calloc 1 127,
           Socket 2])"
  by (simp add: evconnlistener_new_async_def new_accepting_socket_def start_accepting_unfold
      collaborator_defs no_sockets_def quiet_def windows_fields Let_def)

text \<open>
  Claim C10. When the family getsockname reports for the listening socket is neither
  AF_INET nor AF_INET6, new_accepting_socket returns NULL for that family without calling
  anything, and evconnlistener_new_async returns NULL: in every world, whatever the other
  calls answer, the constructor returns and its result is failure.
\<close>

theorem async_rejects_other_families:
  assumes "sa_family (g_addr (shd (socknames w))) \<noteq> AF_INET P"
    and "sa_family (g_addr (shd (socknames w))) \<noteq> AF_INET6 P"
  shows "new_accepting_socket P lev (sa_family (g_addr (shd (socknames w)))) w1 = (None, w1)
       \<and> (\<exists>w'. evconnlistener_new_async P base cb ptr flags backlog fd w =
                  Some (Returned None w'))"
  using assms
  by (auto simp add: new_accepting_socket_def evconnlistener_new_async_def collaborator_defs
      Let_def split: prod.splits)

theorem async_rejects_other_families_witness:
  "\<exists>w'. evconnlistener_new_async windows 1 100 0 0 16 3 unix_socket = Some (Returned None w')
     \<and> trace w' =
         [Listen 3 16, Getsockname 3, Mm_calloc 1 160, Mm_calloc 1 8,
          Event_warnx ''Couldn't create accepting socket'',
          Mm_free 8192, Mm_free 4096, Closesocket 3]"
proof -
  have "sa_family (g_addr (shd (socknames unix_socket))) \<noteq> AF_INET windows"
    and "sa_family (g_addr (shd (socknames unix_socket))) \<noteq> AF_INET6 windows"
    by (simp_all add: unix_socket_fields windows_fields)
  from async_rejects_other_families [OF this, of iocp_listener3 unix_socket 1 100 0 0 16 3]
  obtain w' where w':
      "evconnlistener_new_async windows 1 100 0 0 16 3 unix_socket = Some (Returned None w')"
    by blast
  have "\<exists>w''. evconnlistener_new_async windows 1 100 0 0 16 3 unix_socket =
                 Some (Returned None w'')
          \<and> trace w'' =
              [Listen 3 16, Getsockname 3, Mm_calloc 1 160, Mm_calloc 1 8,
               Event_warnx ''Couldn't create accepting socket'',
               Mm_free 8192, Mm_free 4096, Closesocket 3]"
    by (simp add: evconnlistener_new_async_def new_accepting_socket_def collaborator_defs
        unix_socket_def quiet_def windows_fields Let_def)
  with w' show ?thesis
    by simp
qed

end
